theory Spec2Isabelle
  imports Main
begin

section \<open>Values of the page\<close>

text \<open>
  A JavaScript string is a sequence of UTF-16 code units; every code unit is a natural
  number below 65536. Identifiers, message texts, URLs and error messages are all such
  strings, compared with \<open>===\<close>, which is equality of the sequences.
\<close>

type_synonym js_string = "nat list"

definition js :: "string \<Rightarrow> js_string" where
  "js s = map of_char s"

text \<open>A string is falsy exactly when it is empty; \<open>undefined\<close> and \<open>null\<close> are falsy.\<close>

fun truthy :: "js_string option \<Rightarrow> bool" where
  "truthy None = False"
| "truthy (Some s) = (s \<noteq> [])"

text \<open>
  Modelled from the spec: \<open>types.ts\<close> is not among the sources. The enumerations carry
  the members the page names (\<open>UserRole.CONTRIBUTOR\<close>, \<open>ProjectStatus.OPEN\<close>, ...) and,
  where the page has a fallback branch for further members, one constructor for the rest.
\<close>

datatype UserRole = CONTRIBUTOR | UserRole_other js_string

datatype ApplicationStatus = PENDING | SHORTLISTED | ACCEPTED | REJECTED

datatype ProjectStatus = OPEN | IN_PROGRESS | COMPLETED | ProjectStatus_other js_string

text \<open>\<open>MilestoneStatus.COMPLETED\<close> and \<open>ProjectStatus.COMPLETED\<close> are written qualified.\<close>

datatype MilestoneStatus = COMPLETED | MilestoneStatus_other js_string

datatype NotificationType = ERROR | WARNING | SUCCESS | INFO

text \<open>
  The records hold the fields the page's logic reads or writes; a spread
  \<open>{ ...a, status: s }\<close> is the record update \<open>a\<lparr>app_status := s\<rparr>\<close>, which keeps every
  other field.
\<close>

record User =
  user_id :: js_string
  user_role :: UserRole

record Application =
  app_id :: js_string
  contributor_user_id :: js_string
  app_status :: ApplicationStatus
  proposal_text :: js_string

record Milestone =
  ms_id :: js_string
  ms_description :: js_string
  amount :: nat
  ms_status :: MilestoneStatus

record Project =
  proj_id :: js_string
  proj_title :: js_string
  proj_status :: ProjectStatus
  posted_by_user_id :: js_string
  milestones :: "Milestone list option"
  proj_applications :: "Application list option"

record Sender =
  sender_id :: js_string
  sender_name :: js_string
  profile_photo_url :: "js_string option"

record Message =
  msg_id :: js_string
  msg_project_id :: js_string
  sender_user_id :: js_string
  message_text :: js_string
  attachment_url :: "js_string option"
  created_at :: js_string
  sender_user :: "Sender option"

record File =
  file_name :: js_string

text \<open>A channel object: its topic, and a number standing for the object's identity.\<close>

record RealtimeChannel =
  topic :: js_string
  handle :: nat

text \<open>
  A value caught by \<open>catch (err: any)\<close>: the page reads nothing but \<open>err.message\<close>,
  which may be undefined.
\<close>

record js_error =
  err_message :: "js_string option"

text \<open>
  Modelled from the spec: \<open>apiService.ts\<close> is not among the sources. These are the
  shapes the data-access calls resolve to, as the page destructures them:
  \<open>{ data, error }\<close> and, for the upload, \<open>{ publicUrl, error }\<close>. An awaited call
  can also reject; a call's outcome is \<open>Inl err\<close> when it rejects with \<open>err\<close> and
  \<open>Inr r\<close> when it resolves to \<open>r\<close>.
\<close>

record 'a api_response =
  resp_data :: "'a option"
  resp_error :: "js_error option"

record upload_response =
  publicUrl :: "js_string option"
  upload_error :: "js_error option"

text \<open>\<open>x || d\<close> on a string that may be undefined, and \<open>${x}\<close> in a template literal.\<close>

fun or_default :: "js_string option \<Rightarrow> js_string \<Rightarrow> js_string" where
  "or_default None d = d"
| "or_default (Some s) d = (if s = [] then d else s)"

fun template :: "js_string option \<Rightarrow> js_string" where
  "template None = js ''undefined''"
| "template (Some s) = s"

text \<open>
  \<open>String.prototype.trim\<close> removes the white space and line terminator code units of
  ECMAScript from both ends.
\<close>

definition is_white_space :: "nat \<Rightarrow> bool" where
  "is_white_space c =
     (c \<in> set [0x9, 0xA, 0xB, 0xC, 0xD, 0x20, 0xA0, 0x1680, 0x2028, 0x2029, 0x202F,
                0x205F, 0x3000, 0xFEFF]
      \<or> (0x2000 \<le> c \<and> c \<le> 0x200A))"

definition trim :: "js_string \<Rightarrow> js_string" where
  "trim s = rev (dropWhile is_white_space (rev (dropWhile is_white_space s)))"

section \<open>Permission derivation\<close>

record Permissions =
  isOwner :: bool
  isAcceptedContributor :: bool
  hasApplied :: bool
  canApply :: bool
  canChat :: bool
  canManage :: bool
  viewerApplicationStatus :: "ApplicationStatus option"

text \<open>
  \<open>Array.prototype.find\<close> returns the first element satisfying the predicate, or
  \<open>undefined\<close>: that is \<^const>\<open>find\<close>. An application is an object, hence truthy, so
  \<open>!!application\<close> holds exactly when the search found one.
\<close>

definition derive_permissions ::
  "User option \<Rightarrow> Project option \<Rightarrow> Application list \<Rightarrow> Permissions" where
  "derive_permissions user project applications =
     (case (project, user) of
        (Some p, Some u) \<Rightarrow>
          (let owner = (user_id u = posted_by_user_id p);
               acceptedApp = find (\<lambda>app. contributor_user_id app = user_id u
                                          \<and> app_status app = ACCEPTED) applications;
               application = find (\<lambda>app. contributor_user_id app = user_id u) applications
           in \<lparr> isOwner = owner,
                isAcceptedContributor = (acceptedApp \<noteq> None),
                hasApplied = (application \<noteq> None),
                canApply = (user_role u = CONTRIBUTOR \<and> \<not> owner \<and> application = None
                            \<and> proj_status p = OPEN),
                canChat = (owner \<or> acceptedApp \<noteq> None),
                canManage = owner,
                viewerApplicationStatus = map_option app_status application \<rparr>)
      | _ \<Rightarrow>
          \<lparr> isOwner = False, isAcceptedContributor = False, hasApplied = False,
            canApply = False, canChat = False, canManage = False,
            viewerApplicationStatus = None \<rparr>)"

section \<open>Page state and effects\<close>

text \<open>The component's \<open>useState\<close> variables.\<close>

record page_state =
  project :: "Project option"
  applications :: "Application list"
  messages :: "Message list"
  newMessage :: js_string
  attachment :: "File option"
  isLoading :: bool
  error :: "js_string option"
  isApplying :: bool
  isSendingMessage :: bool
  chatChannel :: "RealtimeChannel option"

text \<open>
  What a handler does to the world outside the component, in program order: the calls to
  the data-access layer, the notifications posted and the console output.
\<close>

datatype effect =
    Notify js_string NotificationType "nat option"
  | Console_error js_string
  | Call_getProjectById js_string
  | Call_selectMessages js_string
  | Call_uploadFile File js_string
  | Call_sendMessage js_string js_string "js_string option"
  | Call_updateApplicationStatus js_string ApplicationStatus
  | Call_updateMilestoneStatus js_string js_string MilestoneStatus

fun is_sendMessage_call :: "effect \<Rightarrow> bool" where
  "is_sendMessage_call (Call_sendMessage _ _ _) = True"
| "is_sendMessage_call _ = False"

fun is_error_notification :: "effect \<Rightarrow> bool" where
  "is_error_notification (Notify _ ERROR _) = True"
| "is_error_notification _ = False"

text \<open>
  \<open>const { data, error } = await call(...); if (error) throw error;\<close>: the value thrown
  into the enclosing \<open>catch\<close>, if any. An error object is truthy.
\<close>

fun thrown :: "js_error + 'a api_response \<Rightarrow> js_error option" where
  "thrown (Inl err) = Some err"
| "thrown (Inr r) = resp_error r"

fun returned :: "js_error + 'a api_response \<Rightarrow> 'a option" where
  "returned (Inl err) = None"
| "returned (Inr r) = resp_data r"

text \<open>
  A handler is a function of the state it is invoked in and of the outcomes the backend
  gives to the calls it makes; it returns the state after its setters have run, in
  program order, and its effects.
\<close>

section \<open>Loading the project and the chat history\<close>

definition fetchProjectDetails ::
  "js_string option \<Rightarrow> js_error + Project api_response \<Rightarrow> page_state
   \<Rightarrow> page_state \<times> effect list" where
  "fetchProjectDetails projectId result st =
     (case projectId of
        None \<Rightarrow> (st, [])
      | Some pid \<Rightarrow>
          if pid = [] then (st, [])
          else
            (let st1 = st\<lparr>isLoading := True, error := None\<rparr>;
                 caught =
                   (case thrown result of
                      Some projectError \<Rightarrow> Inl projectError
                    | None \<Rightarrow>
                        (case returned result of
                           None \<Rightarrow> Inl \<lparr>err_message = Some (js ''Project not found'')\<rparr>
                         | Some d \<Rightarrow> Inr d))
             in case caught of
                  Inr d \<Rightarrow>
                    (st1\<lparr>project := Some d,
                         applications := (case proj_applications d of
                                            None \<Rightarrow> [] | Some apps \<Rightarrow> apps),
                         isLoading := False\<rparr>,
                     [Call_getProjectById pid])
                | Inl err \<Rightarrow>
                    (let m = or_default (err_message err)
                               (js ''Failed to load project details.'')
                     in (st1\<lparr>error := Some m, isLoading := False\<rparr>,
                         [Call_getProjectById pid, Notify m ERROR None]))))"

definition fetchMessages ::
  "User option \<Rightarrow> js_string option \<Rightarrow> js_error + Message list api_response \<Rightarrow> page_state
   \<Rightarrow> page_state \<times> effect list" where
  "fetchMessages user projectId result st =
     (case projectId of
        None \<Rightarrow> (st, [])
      | Some pid \<Rightarrow>
          if \<not> canChat (derive_permissions user (project st) (applications st)) \<or> pid = []
          then (st, [])
          else
            (case thrown result of
               Some msgError \<Rightarrow>
                 (st, [Call_selectMessages pid,
                       Console_error (js ''Error fetching messages:''),
                       Notify (js ''Failed to load chat messages.'') WARNING None])
             | None \<Rightarrow>
                 (st\<lparr>messages := (case returned result of None \<Rightarrow> [] | Some msgs \<Rightarrow> msgs)\<rparr>,
                  [Call_selectMessages pid])))"

section \<open>Realtime messages\<close>

text \<open>
  The INSERT handler of the subscription: \<open>payload.new\<close> with the sender's profile put
  in, then the updater given to \<open>setMessages\<close>. \<open>Array.prototype.some\<close> is \<^const>\<open>list_ex\<close>.
\<close>

definition on_insert :: "Message \<Rightarrow> Sender option \<Rightarrow> Message list \<Rightarrow> Message list" where
  "on_insert payload_new senderData prev =
     (let fullMessage = payload_new\<lparr>sender_user := senderData\<rparr>
      in if list_ex (\<lambda>m. msg_id m = msg_id fullMessage) prev then prev
         else prev @ [fullMessage])"

section \<open>Sending a message\<close>

text \<open>The upload inside the \<open>try\<close> block: the attachment URL, or the error thrown.\<close>

definition upload_attachment ::
  "File option \<Rightarrow> js_error + upload_response \<Rightarrow> (js_error + js_string option) \<times> effect list"
  where
  "upload_attachment att upload_result =
     (case att of
        None \<Rightarrow> (Inr None, [])
      | Some f \<Rightarrow>
          (case upload_result of
             Inl err \<Rightarrow> (Inl err, [Call_uploadFile f (js ''project-chat-attachments'')])
           | Inr r \<Rightarrow>
               if upload_error r \<noteq> None \<or> \<not> truthy (publicUrl r)
               then (Inl \<lparr>err_message =
                            Some (or_default (Option.bind (upload_error r) err_message)
                                    (js ''Failed to upload attachment''))\<rparr>,
                     [Call_uploadFile f (js ''project-chat-attachments'')])
               else (Inr (publicUrl r),
                     [Call_uploadFile f (js ''project-chat-attachments'')])))"

text \<open>The \<open>try\<close> block: the error it throws (if any), the state and the calls made.\<close>

definition send_try ::
  "js_string \<Rightarrow> js_error + upload_response \<Rightarrow> js_error + Message api_response \<Rightarrow> page_state
   \<Rightarrow> js_error option \<times> page_state \<times> effect list" where
  "send_try pid upload_result send_result st =
     (case upload_attachment (attachment st) upload_result of
        (Inl err, tr) \<Rightarrow> (Some err, st, tr)
      | (Inr attachmentUrl, tr) \<Rightarrow>
          (let call = Call_sendMessage pid (trim (newMessage st)) attachmentUrl
           in case thrown send_result of
                Some err \<Rightarrow> (Some err, st, tr @ [call])
              | None \<Rightarrow>
                  (None,
                   (case returned send_result of
                      Some d \<Rightarrow> st\<lparr>messages := messages st @ [d]\<rparr>
                    | None \<Rightarrow> st)\<lparr>newMessage := [], attachment := None\<rparr>,
                   tr @ [call])))"

definition handleSendMessage ::
  "js_string option \<Rightarrow> User option \<Rightarrow> js_error + upload_response
   \<Rightarrow> js_error + Message api_response \<Rightarrow> page_state \<Rightarrow> page_state \<times> effect list" where
  "handleSendMessage projectId user upload_result send_result st =
     (case projectId of
        None \<Rightarrow> (st, [])
      | Some pid \<Rightarrow>
          if pid = [] \<or> (trim (newMessage st) = [] \<and> attachment st = None) \<or> user = None
          then (st, [])
          else
            (case send_try pid upload_result send_result (st\<lparr>isSendingMessage := True\<rparr>) of
               (None, st2, tr) \<Rightarrow> (st2\<lparr>isSendingMessage := False\<rparr>, tr)
             | (Some err, st2, tr) \<Rightarrow>
                 (st2\<lparr>isSendingMessage := False\<rparr>,
                  tr @ [Notify (or_default (err_message err) (js ''Failed to send message.''))
                          ERROR None])))"

section \<open>Owner actions\<close>

text \<open>
  The text of an \<open>ApplicationStatus\<close> member in a template literal is fixed by
  \<open>types.ts\<close>; it is the parameter \<open>status_text\<close>.
\<close>

definition handleApplicationStatusUpdate ::
  "(ApplicationStatus \<Rightarrow> js_string) \<Rightarrow> User option \<Rightarrow> js_string \<Rightarrow> ApplicationStatus
   \<Rightarrow> js_error + 'a api_response \<Rightarrow> page_state \<Rightarrow> page_state \<times> effect list" where
  "handleApplicationStatusUpdate status_text user applicationId newStatus result st =
     (if \<not> isOwner (derive_permissions user (project st) (applications st))
         \<or> project st = None
      then (st, [])
      else
        (case thrown result of
           Some err \<Rightarrow>
             (st, [Call_updateApplicationStatus applicationId newStatus,
                   Notify (js ''Failed to update application: '' @ template (err_message err))
                     ERROR None])
         | None \<Rightarrow>
             (st\<lparr>applications :=
                    map (\<lambda>a. if app_id a = applicationId then a\<lparr>app_status := newStatus\<rparr>
                             else a) (applications st),
                 project :=
                    (if newStatus = ACCEPTED
                     then map_option (\<lambda>prev. prev\<lparr>proj_status := IN_PROGRESS\<rparr>) (project st)
                     else project st)\<rparr>,
              [Call_updateApplicationStatus applicationId newStatus,
               Notify (js ''Application status updated to '' @ status_text newStatus @ js ''.'')
                 SUCCESS None])))"

definition handleMarkMilestoneComplete ::
  "User option \<Rightarrow> js_string option \<Rightarrow> js_string \<Rightarrow> js_error + Milestone api_response
   \<Rightarrow> page_state \<Rightarrow> page_state \<times> effect list" where
  "handleMarkMilestoneComplete user projectId milestoneId result st =
     (case projectId of
        None \<Rightarrow> (st, [])
      | Some pid \<Rightarrow>
          if \<not> isOwner (derive_permissions user (project st) (applications st)) \<or> pid = []
          then (st, [])
          else
            (case thrown result of
               Some err \<Rightarrow>
                 (st, [Call_updateMilestoneStatus milestoneId pid MilestoneStatus.COMPLETED,
                       Notify (js ''Failed to update milestone: '' @ template (err_message err))
                         ERROR None])
             | None \<Rightarrow>
                 (st\<lparr>project :=
                        map_option
                          (\<lambda>prev. prev\<lparr>milestones :=
                             map_option
                               (map (\<lambda>m. if ms_id m = milestoneId
                                          then (case returned result of
                                                  Some d \<Rightarrow> d
                                                | None \<Rightarrow> m\<lparr>ms_status := MilestoneStatus.COMPLETED\<rparr>)
                                          else m))
                               (milestones prev)\<rparr>)
                          (project st)\<rparr>,
                  [Call_updateMilestoneStatus milestoneId pid MilestoneStatus.COMPLETED,
                   Notify (js ''Milestone marked as complete.'') SUCCESS None])))"

section \<open>Top-level rendering\<close>

datatype page_view =
    Spinner_view
  | Error_view js_string
  | Not_found_view
  | Project_view Project

definition render_page :: "page_state \<Rightarrow> page_view" where
  "render_page st =
     (if isLoading st then Spinner_view
      else if truthy (error st) then Error_view (the (error st))
      else case project st of
             None \<Rightarrow> Not_found_view
           | Some p \<Rightarrow> Project_view p)"

text \<open>The three page states: loading, fatal error (fetch failed or project missing), loaded.\<close>

fun shows_loading :: "page_view \<Rightarrow> bool" where
  "shows_loading Spinner_view = True"
| "shows_loading _ = False"

fun shows_fatal_error :: "page_view \<Rightarrow> bool" where
  "shows_fatal_error (Error_view _) = True"
| "shows_fatal_error Not_found_view = True"
| "shows_fatal_error _ = False"

fun shows_project :: "page_view \<Rightarrow> bool" where
  "shows_project (Project_view _) = True"
| "shows_project _ = False"

section \<open>Lifecycle of the realtime subscription\<close>

text \<open>
  The subscription lives in a \<open>useEffect\<close> with the dependency array
  \<open>[projectId, canChat, addNotification]\<close>. After a render, React runs the effect when it
  is the first render or a dependency differs (\<open>Object.is\<close>) from the one of the render
  in which the effect last ran; before that it runs the cleanup function the last run
  returned. On unmount it runs that cleanup function. The effect body and the cleanup
  function it returns are closures of one render: the \<open>chatChannel\<close> they read is the
  value the state variable had in that render. \<open>addNotification\<close> is a function, compared
  by identity; a number stands for it.
\<close>

record effect_deps =
  dep_projectId :: "js_string option"
  dep_canChat :: bool
  dep_addNotification :: nat

datatype channel_call = Channel_subscribe RealtimeChannel | Channel_remove RealtimeChannel

text \<open>
  One mounted instance of the component, reduced to what the effect reads and writes:
  \<open>chat_state\<close> is the state variable \<open>chatChannel\<close>; \<open>last_run\<close> holds the dependencies
  of the last effect run and the \<open>chatChannel\<close> its closure captured; \<open>fresh\<close> numbers
  the channel objects; \<open>channel_calls\<close> records the calls to \<open>subscribe\<close> and
  \<open>supabase.removeChannel\<close>; \<open>unmounted\<close> is set by the unmount, after which the instance
  renders no more.
\<close>

record component =
  chat_state :: "RealtimeChannel option"
  last_run :: "(effect_deps \<times> RealtimeChannel option) option"
  fresh :: nat
  channel_calls :: "channel_call list"
  unmounted :: bool

definition subscription_effect :: "effect_deps \<Rightarrow> component \<Rightarrow> component" where
  "subscription_effect d c =
     (let captured = chat_state c;
          c1 = (case dep_projectId d of
                  None \<Rightarrow> c
                | Some pid \<Rightarrow>
                    if dep_canChat d \<and> pid \<noteq> [] \<and> captured = None
                    then (let newChannel = \<lparr>topic = js ''project-chat-'' @ pid,
                                             handle = fresh c\<rparr>
                          in c\<lparr>chat_state := Some newChannel,
                                fresh := Suc (fresh c),
                                channel_calls :=
                                  channel_calls c @ [Channel_subscribe newChannel]\<rparr>)
                    else c)
      in c1\<lparr>last_run := Some (d, captured)\<rparr>)"

definition subscription_cleanup :: "component \<Rightarrow> component" where
  "subscription_cleanup c =
     (case last_run c of
        Some (d, Some ch) \<Rightarrow> c\<lparr>channel_calls := channel_calls c @ [Channel_remove ch]\<rparr>
      | _ \<Rightarrow> c)"

datatype lifecycle_event = Render effect_deps | Unmount

fun lifecycle_step :: "component \<Rightarrow> lifecycle_event \<Rightarrow> component" where
  "lifecycle_step c (Render d) =
     (if unmounted c then c
      else case last_run c of
             None \<Rightarrow> subscription_effect d c
           | Some (d', captured) \<Rightarrow>
               if d' = d then c else subscription_effect d (subscription_cleanup c))"
| "lifecycle_step c Unmount =
     (if unmounted c then c
      else (subscription_cleanup c)\<lparr>last_run := None, unmounted := True\<rparr>)"

definition mounted :: component where
  "mounted = \<lparr>chat_state = None, last_run = None, fresh = 0, channel_calls = [],
               unmounted = False\<rparr>"

definition lifecycle :: "lifecycle_event list \<Rightarrow> component" where
  "lifecycle evs = foldl lifecycle_step mounted evs"

fun is_subscribe :: "channel_call \<Rightarrow> bool" where
  "is_subscribe (Channel_subscribe _) = True"
| "is_subscribe (Channel_remove _) = False"

text \<open>
  The invariant behind the guard \<open>!chatChannel\<close>: the state variable is set exactly when
  a channel has been subscribed, and nothing ever resets it.
\<close>

definition one_channel :: "component \<Rightarrow> bool" where
  "one_channel c =
     (if chat_state c = None then filter is_subscribe (channel_calls c) = []
      else length (filter is_subscribe (channel_calls c)) = 1)"

section \<open>Sample values\<close>

text \<open>Concrete inputs on which the definitions are run.\<close>

definition alice :: User where
  "alice = \<lparr> user_id = js ''u-alice'', user_role = UserRole_other (js ''research_lead'') \<rparr>"

definition bob :: User where
  "bob = \<lparr> user_id = js ''u-bob'', user_role = CONTRIBUTOR \<rparr>"

definition carol :: User where
  "carol = \<lparr> user_id = js ''u-carol'', user_role = CONTRIBUTOR \<rparr>"

definition bob_app :: Application where
  "bob_app = \<lparr> app_id = js ''a1'', contributor_user_id = js ''u-bob'',
                app_status = PENDING, proposal_text = js ''I can help'' \<rparr>"

definition carol_app :: Application where
  "carol_app = \<lparr> app_id = js ''a2'', contributor_user_id = js ''u-carol'',
                  app_status = SHORTLISTED, proposal_text = js ''Me too'' \<rparr>"

definition m1 :: Milestone where
  "m1 = \<lparr> ms_id = js ''m1'', ms_description = js ''Survey'', amount = 100,
           ms_status = MilestoneStatus_other (js ''pending'') \<rparr>"

definition m2 :: Milestone where
  "m2 = \<lparr> ms_id = js ''m2'', ms_description = js ''Report'', amount = 250,
           ms_status = MilestoneStatus_other (js ''funded'') \<rparr>"

definition proj :: Project where
  "proj = \<lparr> proj_id = js ''p1'', proj_title = js ''Protein folding'', proj_status = OPEN,
             posted_by_user_id = js ''u-alice'', milestones = Some [m1, m2],
             proj_applications = Some [bob_app] \<rparr>"

definition msg1 :: Message where
  "msg1 = \<lparr> msg_id = js ''g1'', msg_project_id = js ''p1'', sender_user_id = js ''u-alice'',
             message_text = js ''Welcome'', attachment_url = None,
             created_at = js ''2024-05-01T10:00:00Z'', sender_user = None \<rparr>"

definition msg2 :: Message where
  "msg2 = \<lparr> msg_id = js ''g2'', msg_project_id = js ''p1'', sender_user_id = js ''u-bob'',
             message_text = js ''Thanks'', attachment_url = None,
             created_at = js ''2024-05-01T10:05:00Z'', sender_user = None \<rparr>"

definition bob_profile :: Sender where
  "bob_profile = \<lparr> sender_id = js ''u-bob'', sender_name = js ''Bob'',
                    profile_photo_url = None \<rparr>"

definition loaded_page :: page_state where
  "loaded_page = \<lparr> project = Some proj, applications = [bob_app, carol_app],
                    messages = [msg1], newMessage = [0x20, 0xA, 0xA0], attachment = None,
                    isLoading = False, error = None, isApplying = False,
                    isSendingMessage = False, chatChannel = None \<rparr>"

definition notes_pdf :: File where
  "notes_pdf = \<lparr> file_name = js ''notes.pdf'' \<rparr>"

definition image_url :: js_string where
  "image_url = js ''https://cdn.example/notes.pdf''"

definition server_down :: js_error where
  "server_down = \<lparr> err_message = Some (js ''503 Service Unavailable'') \<rparr>"

definition status_name :: "ApplicationStatus \<Rightarrow> js_string" where
  "status_name s = (case s of PENDING \<Rightarrow> js ''pending'' | SHORTLISTED \<Rightarrow> js ''shortlisted''
                    | ACCEPTED \<Rightarrow> js ''accepted'' | REJECTED \<Rightarrow> js ''rejected'')"

definition not_yet_loaded :: effect_deps where
  "not_yet_loaded = \<lparr> dep_projectId = Some (js ''p1''), dep_canChat = False,
                       dep_addNotification = 0 \<rparr>"

definition chat_allowed :: effect_deps where
  "chat_allowed = \<lparr> dep_projectId = Some (js ''p1''), dep_canChat = True,
                     dep_addNotification = 0 \<rparr>"

definition first_channel :: RealtimeChannel where
  "first_channel = \<lparr> topic = js ''project-chat-'' @ js ''p1'', handle = 0 \<rparr>"

section \<open>Properties of the permission derivation\<close>

lemma find_None_set: "(find P xs = None) = (\<forall>x\<in>set xs. \<not> P x)"
  by (auto simp: find_None_iff)

lemma js_eq_iff: "(js a = js b) = (a = b)"
  unfolding js_def by (simp add: inj_map_eq_map inj_on_def)

lemma js_nonempty: "js (c # cs) \<noteq> []"
  by (simp add: js_def)

lemma or_default_nonempty: "d \<noteq> [] \<Longrightarrow> or_default x d \<noteq> []"
  by (cases x) auto

lemma owner_sees_project:
  "isOwner (derive_permissions user p apps) \<Longrightarrow> p \<noteq> None \<and> user \<noteq> None"
  by (auto simp: derive_permissions_def split: option.splits)

lemma alice_owns_loaded_page:
  "isOwner (derive_permissions (Some alice) (project loaded_page) (applications loaded_page))"
  by (simp add: derive_permissions_def loaded_page_def alice_def proj_def)

text \<open>
  C1. With a signed-in user and a loaded project, \<open>canApply\<close> holds exactly when the
  user's role is contributor, the user is not the project's owner, no application of the
  list has the user as its contributor, and the project's status is OPEN.
\<close>

theorem canApply_iff:
  "canApply (derive_permissions (Some u) (Some p) apps) =
     (user_role u = CONTRIBUTOR \<and> user_id u \<noteq> posted_by_user_id p
      \<and> (\<forall>a\<in>set apps. contributor_user_id a \<noteq> user_id u)
      \<and> proj_status p = OPEN)"
  by (simp add: derive_permissions_def Let_def find_None_set)

theorem canApply_iff_witness:
  "canApply (derive_permissions (Some carol) (Some proj) [bob_app])
   \<and> user_role carol = CONTRIBUTOR \<and> user_id carol \<noteq> posted_by_user_id proj
   \<and> contributor_user_id bob_app \<noteq> user_id carol
   \<and> proj_status proj = OPEN
   \<and> \<not> canApply (derive_permissions (Some bob) (Some proj) [bob_app])"
  using canApply_iff [of carol proj "[bob_app]"] canApply_iff [of bob proj "[bob_app]"]
  by (simp add: carol_def bob_def proj_def bob_app_def js_eq_iff)

text \<open>
  C10. While the project is not loaded or nobody is signed in, every derived permission
  is false and \<open>viewerApplicationStatus\<close> is undefined.
\<close>

theorem permissions_null_guard:
  "p = None \<or> u = None \<Longrightarrow>
   derive_permissions u p apps =
     \<lparr> isOwner = False, isAcceptedContributor = False, hasApplied = False,
       canApply = False, canChat = False, canManage = False,
       viewerApplicationStatus = None \<rparr>"
  by (auto simp: derive_permissions_def split: option.splits)

theorem permissions_null_guard_witness:
  "derive_permissions None (Some proj) [bob_app] =
     \<lparr> isOwner = False, isAcceptedContributor = False, hasApplied = False,
       canApply = False, canChat = False, canManage = False,
       viewerApplicationStatus = None \<rparr>
   \<and> derive_permissions (Some bob) None [bob_app] =
     \<lparr> isOwner = False, isAcceptedContributor = False, hasApplied = False,
       canApply = False, canChat = False, canManage = False,
       viewerApplicationStatus = None \<rparr>"
  using permissions_null_guard [of "Some proj" None "[bob_app]"]
        permissions_null_guard [of None "Some bob" "[bob_app]"]
  by simp

section \<open>Properties of the realtime merge\<close>

text \<open>
  C2. When a message with the incoming identifier is already in the list, the merge
  returns the list unchanged; otherwise it appends the composed message at the end.
  Merging the same event a second time, whatever profile the second lookup returns,
  changes nothing.
\<close>

theorem realtime_merge:
  "((\<exists>m\<in>set prev. msg_id m = msg_id payload_new)
      \<longrightarrow> on_insert payload_new senderData prev = prev)
   \<and> (\<not> (\<exists>m\<in>set prev. msg_id m = msg_id payload_new)
      \<longrightarrow> on_insert payload_new senderData prev
            = prev @ [payload_new\<lparr>sender_user := senderData\<rparr>])
   \<and> on_insert payload_new senderData' (on_insert payload_new senderData prev)
       = on_insert payload_new senderData prev"
  by (auto simp: on_insert_def Let_def list_ex_iff)

theorem realtime_merge_witness:
  "on_insert msg1 (Some bob_profile) [msg1, msg2] = [msg1, msg2]
   \<and> on_insert msg2 (Some bob_profile) [msg1] = [msg1, msg2\<lparr>sender_user := Some bob_profile\<rparr>]
   \<and> on_insert msg2 None (on_insert msg2 (Some bob_profile) [msg1])
       = on_insert msg2 (Some bob_profile) [msg1]"
proof -
  have ne: "msg_id msg1 \<noteq> msg_id msg2"
    by (simp add: msg1_def msg2_def js_eq_iff)
  have a: "on_insert msg1 (Some bob_profile) [msg1, msg2] = [msg1, msg2]"
    using realtime_merge [of "[msg1, msg2]" msg1 "Some bob_profile" None] by simp
  have b: "on_insert msg2 (Some bob_profile) [msg1]
             = [msg1, msg2\<lparr>sender_user := Some bob_profile\<rparr>]"
    using realtime_merge [of "[msg1]" msg2 "Some bob_profile" None] ne by simp
  have c: "on_insert msg2 None (on_insert msg2 (Some bob_profile) [msg1])
             = on_insert msg2 (Some bob_profile) [msg1]"
    using realtime_merge [of "[msg1]" msg2 "Some bob_profile" None] by blast
  show ?thesis by (rule conjI [OF a conjI [OF b c]])
qed

section \<open>Properties of sending\<close>

text \<open>
  C5. When the trimmed text is empty and no attachment is selected, \<open>handleSendMessage\<close>
  returns at its guard: the state is the one it was invoked in and there is no effect at
  all, so neither \<open>uploadFile\<close> nor \<open>sendMessage\<close> is called.
\<close>

theorem send_rejected_when_empty:
  "trim (newMessage st) = [] \<and> attachment st = None \<Longrightarrow>
   handleSendMessage projectId user upload_result send_result st = (st, [])"
  by (simp add: handleSendMessage_def split: option.splits)

theorem send_rejected_when_empty_witness:
  "trim (newMessage loaded_page) = [] \<and> attachment loaded_page = None
   \<and> handleSendMessage (Some (js ''p1'')) (Some alice)
        (Inr \<lparr>publicUrl = Some image_url, upload_error = None\<rparr>)
        (Inr \<lparr>resp_data = Some msg2, resp_error = None\<rparr>) loaded_page = (loaded_page, [])"
proof -
  have h: "trim (newMessage loaded_page) = [] \<and> attachment loaded_page = None"
    by (simp add: loaded_page_def trim_def is_white_space_def)
  from send_rejected_when_empty [OF h] h show ?thesis by simp
qed

lemma upload_failure_result:
  assumes "projectId = Some pid" and "pid \<noteq> []" and "user \<noteq> None"
    and "attachment st = Some f"
    and "(\<exists>err. upload_result = Inl err)
         \<or> (\<exists>r. upload_result = Inr r \<and> (upload_error r \<noteq> None \<or> \<not> truthy (publicUrl r)))"
  shows "\<exists>m. m \<noteq> [] \<and>
           handleSendMessage projectId user upload_result send_result st
           = (st\<lparr>isSendingMessage := False\<rparr>,
              [Call_uploadFile f (js ''project-chat-attachments''), Notify m ERROR None])"
  using assms
  by (auto simp: handleSendMessage_def send_try_def upload_attachment_def js_nonempty
        or_default_nonempty split: option.splits sum.splits)

text \<open>
  C6. When a send passes the guard with an attachment and the upload fails (the call
  rejects, or it resolves with an error or without a public URL), \<open>sendMessage\<close> is not
  called, the message list is unchanged and an ERROR notification is posted: the only
  effects are the upload call and that notification.
\<close>

theorem upload_failure_aborts_send:
  assumes "projectId = Some pid" and "pid \<noteq> []" and "user \<noteq> None"
    and "attachment st = Some f"
    and "(\<exists>err. upload_result = Inl err)
         \<or> (\<exists>r. upload_result = Inr r \<and> (upload_error r \<noteq> None \<or> \<not> truthy (publicUrl r)))"
  shows "\<not> list_ex is_sendMessage_call
             (snd (handleSendMessage projectId user upload_result send_result st))
     \<and> messages (fst (handleSendMessage projectId user upload_result send_result st))
         = messages st
     \<and> list_ex is_error_notification
             (snd (handleSendMessage projectId user upload_result send_result st))
     \<and> (\<exists>m. snd (handleSendMessage projectId user upload_result send_result st)
              = [Call_uploadFile f (js ''project-chat-attachments''), Notify m ERROR None])"
proof -
  from upload_failure_result [OF assms, of send_result]
  obtain m where
    "handleSendMessage projectId user upload_result send_result st
       = (st\<lparr>isSendingMessage := False\<rparr>,
          [Call_uploadFile f (js ''project-chat-attachments''), Notify m ERROR None])"
    by blast
  then show ?thesis by simp
qed

theorem upload_failure_aborts_send_witness:
  "attachment (loaded_page\<lparr>attachment := Some notes_pdf\<rparr>) = Some notes_pdf
   \<and> \<not> list_ex is_sendMessage_call
         (snd (handleSendMessage (Some (js ''p1'')) (Some alice) (Inl server_down)
                 (Inr \<lparr>resp_data = Some msg2, resp_error = None\<rparr>)
                 (loaded_page\<lparr>attachment := Some notes_pdf\<rparr>)))
   \<and> messages (fst (handleSendMessage (Some (js ''p1'')) (Some alice) (Inl server_down)
                 (Inr \<lparr>resp_data = Some msg2, resp_error = None\<rparr>)
                 (loaded_page\<lparr>attachment := Some notes_pdf\<rparr>))) = [msg1]
   \<and> list_ex is_error_notification
         (snd (handleSendMessage (Some (js ''p1'')) (Some alice) (Inl server_down)
                 (Inr \<lparr>resp_data = Some msg2, resp_error = None\<rparr>)
                 (loaded_page\<lparr>attachment := Some notes_pdf\<rparr>)))"
proof -
  have pid: "js ''p1'' \<noteq> []" by (simp add: js_def)
  have att: "attachment (loaded_page\<lparr>attachment := Some notes_pdf\<rparr>) = Some notes_pdf"
    by simp
  have fails: "(\<exists>err. (Inl server_down :: js_error + upload_response) = Inl err)
         \<or> (\<exists>r. (Inl server_down :: js_error + upload_response) = Inr r
                 \<and> (upload_error r \<noteq> None \<or> \<not> truthy (publicUrl r)))"
    by simp
  have msgs: "messages (loaded_page\<lparr>attachment := Some notes_pdf\<rparr>) = [msg1]"
    by (simp add: loaded_page_def)
  from upload_failure_aborts_send [OF refl pid _ att fails, of "Some alice"
         "Inr \<lparr>resp_data = Some msg2, resp_error = None\<rparr>"] att msgs
  show ?thesis by simp
qed

section \<open>Properties of the owner actions\<close>

text \<open>
  C3. When the owner's call to \<open>updateApplicationStatus\<close> succeeds, the list of
  applications keeps its length and order, every application with the given id has its
  status replaced by the new status, every other application is unchanged, and when the
  new status is ACCEPTED the local project has status IN_PROGRESS.
\<close>

theorem application_status_update_success:
  assumes "isOwner (derive_permissions user (project st) (applications st))"
    and "project st = Some p"
    and "thrown result = None"
  shows "length (applications (fst (handleApplicationStatusUpdate status_text user
                   applicationId newStatus result st))) = length (applications st)
     \<and> (\<forall>i < length (applications st).
           applications (fst (handleApplicationStatusUpdate status_text user
                   applicationId newStatus result st)) ! i
           = (if app_id (applications st ! i) = applicationId
              then (applications st ! i)\<lparr>app_status := newStatus\<rparr>
              else applications st ! i))
     \<and> (newStatus = ACCEPTED \<longrightarrow>
           project (fst (handleApplicationStatusUpdate status_text user
                   applicationId newStatus result st)) = Some (p\<lparr>proj_status := IN_PROGRESS\<rparr>))"
  using assms by (simp add: handleApplicationStatusUpdate_def)

theorem application_status_update_success_witness:
  "thrown (Inr \<lparr>resp_data = None, resp_error = None\<rparr> :: js_error + unit api_response) = None
   \<and> length (applications (fst (handleApplicationStatusUpdate status_name (Some alice)
        (js ''a1'') ACCEPTED
        (Inr \<lparr>resp_data = None, resp_error = None\<rparr> :: js_error + unit api_response)
        loaded_page))) = 2
   \<and> applications (fst (handleApplicationStatusUpdate status_name (Some alice)
        (js ''a1'') ACCEPTED
        (Inr \<lparr>resp_data = None, resp_error = None\<rparr> :: js_error + unit api_response)
        loaded_page)) ! 0 = bob_app\<lparr>app_status := ACCEPTED\<rparr>
   \<and> applications (fst (handleApplicationStatusUpdate status_name (Some alice)
        (js ''a1'') ACCEPTED
        (Inr \<lparr>resp_data = None, resp_error = None\<rparr> :: js_error + unit api_response)
        loaded_page)) ! 1 = carol_app
   \<and> project (fst (handleApplicationStatusUpdate status_name (Some alice)
        (js ''a1'') ACCEPTED
        (Inr \<lparr>resp_data = None, resp_error = None\<rparr> :: js_error + unit api_response)
        loaded_page)) = Some (proj\<lparr>proj_status := IN_PROGRESS\<rparr>)"
proof -
  have pr: "project loaded_page = Some proj" by (simp add: loaded_page_def)
  have ok: "thrown (Inr \<lparr>resp_data = None, resp_error = None\<rparr>
                    :: js_error + unit api_response) = None"
    by simp
  have apps: "applications loaded_page = [bob_app, carol_app]" by (simp add: loaded_page_def)
  have ids: "app_id bob_app = js ''a1''" "app_id carol_app \<noteq> js ''a1''"
    by (simp_all add: bob_app_def carol_app_def js_eq_iff)
  from application_status_update_success [OF alice_owns_loaded_page pr ok,
         of status_name "js ''a1''" ACCEPTED] ok ids
  show ?thesis by (simp add: apps All_less_Suc numeral_2_eq_2)
qed

text \<open>
  C7. When the call to \<open>updateApplicationStatus\<close> rejects or resolves with an error,
  the applications and the project, indeed the whole state, are unchanged and the only
  effects are the call and one ERROR notification.
\<close>

theorem application_status_update_failure:
  assumes "isOwner (derive_permissions user (project st) (applications st))"
    and "thrown result = Some err"
  shows "applications (fst (handleApplicationStatusUpdate status_text user applicationId
                              newStatus result st)) = applications st
     \<and> project (fst (handleApplicationStatusUpdate status_text user applicationId
                              newStatus result st)) = project st
     \<and> list_ex is_error_notification
          (snd (handleApplicationStatusUpdate status_text user applicationId newStatus result st))
     \<and> handleApplicationStatusUpdate status_text user applicationId newStatus result st
         = (st, [Call_updateApplicationStatus applicationId newStatus,
                 Notify (js ''Failed to update application: '' @ template (err_message err))
                   ERROR None])"
  using assms owner_sees_project [of user "project st" "applications st"]
  by (simp add: handleApplicationStatusUpdate_def)

theorem application_status_update_failure_witness:
  "thrown (Inr \<lparr>resp_data = None, resp_error = Some server_down\<rparr>
            :: js_error + unit api_response) = Some server_down
   \<and> handleApplicationStatusUpdate status_name (Some alice) (js ''a1'') ACCEPTED
        (Inr \<lparr>resp_data = None, resp_error = Some server_down\<rparr>
           :: js_error + unit api_response) loaded_page
      = (loaded_page,
         [Call_updateApplicationStatus (js ''a1'') ACCEPTED,
          Notify (js ''Failed to update application: '' @ js ''503 Service Unavailable'')
            ERROR None])"
proof -
  have err: "thrown (Inr \<lparr>resp_data = None, resp_error = Some server_down\<rparr>
                      :: js_error + unit api_response) = Some server_down"
    by simp
  have msg: "template (err_message server_down) = js ''503 Service Unavailable''"
    by (simp add: server_down_def)
  from application_status_update_failure [OF alice_owns_loaded_page err,
         of status_name "js ''a1''" ACCEPTED] err msg
  show ?thesis by simp
qed

lemma list_of_two: "length xs = 2 \<Longrightarrow> xs = [xs ! 0, xs ! 1]"
  by (cases xs; cases "tl xs") auto

text \<open>
  C8. When the owner's call to \<open>updateMilestoneStatus\<close> succeeds, every milestone with
  the given id is replaced by the record the server returned, or, when it returned none,
  by the milestone with status COMPLETED; every other milestone is unchanged. When the
  call fails, an ERROR notification is posted and the state is unchanged.
\<close>

theorem milestone_complete:
  assumes "isOwner (derive_permissions user (project st) (applications st))"
    and "projectId = Some pid" and "pid \<noteq> []"
    and "project st = Some p" and "milestones p = Some ms"
  shows "(thrown result = None \<longrightarrow>
            (\<exists>ms'. project (fst (handleMarkMilestoneComplete user projectId milestoneId result st))
                     = Some (p\<lparr>milestones := Some ms'\<rparr>)
                 \<and> length ms' = length ms
                 \<and> (\<forall>i < length ms.
                       ms' ! i = (if ms_id (ms ! i) = milestoneId
                                  then (case returned result of
                                          Some d \<Rightarrow> d
                                        | None \<Rightarrow> (ms ! i)\<lparr>ms_status := MilestoneStatus.COMPLETED\<rparr>)
                                  else ms ! i))))
       \<and> (\<forall>err. thrown result = Some err \<longrightarrow>
            handleMarkMilestoneComplete user projectId milestoneId result st
            = (st, [Call_updateMilestoneStatus milestoneId pid MilestoneStatus.COMPLETED,
                    Notify (js ''Failed to update milestone: '' @ template (err_message err))
                      ERROR None]))"
proof -
  let ?patch = "\<lambda>m. if ms_id m = milestoneId
                     then (case returned result of
                             Some d \<Rightarrow> d
                           | None \<Rightarrow> m\<lparr>ms_status := MilestoneStatus.COMPLETED\<rparr>)
                     else m"
  have success: "project (fst (handleMarkMilestoneComplete user projectId milestoneId result st))
                   = Some (p\<lparr>milestones := Some (map ?patch ms)\<rparr>)"
    if "thrown result = None"
    using assms that by (simp add: handleMarkMilestoneComplete_def)
  have failure: "handleMarkMilestoneComplete user projectId milestoneId result st
            = (st, [Call_updateMilestoneStatus milestoneId pid MilestoneStatus.COMPLETED,
                    Notify (js ''Failed to update milestone: '' @ template (err_message err))
                      ERROR None])"
    if "thrown result = Some err" for err
    using assms that by (simp add: handleMarkMilestoneComplete_def)
  show ?thesis
  proof (intro conjI impI allI)
    assume "thrown result = None"
    from success [OF this]
    show "\<exists>ms'. project (fst (handleMarkMilestoneComplete user projectId milestoneId result st))
                     = Some (p\<lparr>milestones := Some ms'\<rparr>)
                 \<and> length ms' = length ms
                 \<and> (\<forall>i < length ms.
                       ms' ! i = (if ms_id (ms ! i) = milestoneId
                                  then (case returned result of
                                          Some d \<Rightarrow> d
                                        | None \<Rightarrow> (ms ! i)\<lparr>ms_status := MilestoneStatus.COMPLETED\<rparr>)
                                  else ms ! i))"
      by (intro exI [of _ "map ?patch ms"]) simp
  next
    fix err assume "thrown result = Some err"
    then show "handleMarkMilestoneComplete user projectId milestoneId result st
            = (st, [Call_updateMilestoneStatus milestoneId pid MilestoneStatus.COMPLETED,
                    Notify (js ''Failed to update milestone: '' @ template (err_message err))
                      ERROR None])"
      by (rule failure)
  qed
qed

theorem milestone_complete_witness:
  "project (fst (handleMarkMilestoneComplete (Some alice) (Some (js ''p1'')) (js ''m1'')
                   (Inr \<lparr>resp_data = None, resp_error = None\<rparr>) loaded_page))
     = Some (proj\<lparr>milestones := Some [m1\<lparr>ms_status := MilestoneStatus.COMPLETED\<rparr>, m2]\<rparr>)
   \<and> project (fst (handleMarkMilestoneComplete (Some alice) (Some (js ''p1'')) (js ''m1'')
                   (Inr \<lparr>resp_data = Some (m1\<lparr>amount := 120\<rparr>), resp_error = None\<rparr>)
                   loaded_page))
     = Some (proj\<lparr>milestones := Some [m1\<lparr>amount := 120\<rparr>, m2]\<rparr>)
   \<and> handleMarkMilestoneComplete (Some alice) (Some (js ''p1'')) (js ''m1'')
        (Inl server_down) loaded_page
     = (loaded_page,
        [Call_updateMilestoneStatus (js ''m1'') (js ''p1'') MilestoneStatus.COMPLETED,
         Notify (js ''Failed to update milestone: '' @ js ''503 Service Unavailable'')
           ERROR None])"
proof -
  have pid: "js ''p1'' \<noteq> []" by (simp add: js_def)
  have pr: "project loaded_page = Some proj" by (simp add: loaded_page_def)
  have ms: "milestones proj = Some [m1, m2]" by (simp add: proj_def)
  have ids: "ms_id m1 = js ''m1''" "ms_id m2 \<noteq> js ''m1''"
    by (simp_all add: m1_def m2_def js_eq_iff)
  have msg: "template (err_message server_down) = js ''503 Service Unavailable''"
    by (simp add: server_down_def)
  note inst = milestone_complete [OF alice_owns_loaded_page refl pid pr ms,
                where milestoneId = "js ''m1''"]
  have a: "project (fst (handleMarkMilestoneComplete (Some alice) (Some (js ''p1'')) (js ''m1'')
                   (Inr \<lparr>resp_data = None, resp_error = None\<rparr>) loaded_page))
     = Some (proj\<lparr>milestones := Some [m1\<lparr>ms_status := MilestoneStatus.COMPLETED\<rparr>, m2]\<rparr>)"
  proof -
    from inst [where result = "Inr \<lparr>resp_data = None, resp_error = None\<rparr>"] ids
    obtain ms' where
      p: "project (fst (handleMarkMilestoneComplete (Some alice) (Some (js ''p1'')) (js ''m1'')
                   (Inr \<lparr>resp_data = None, resp_error = None\<rparr>) loaded_page))
            = Some (proj\<lparr>milestones := Some ms'\<rparr>)"
      and l: "length ms' = 2"
      and e: "ms' ! 0 = m1\<lparr>ms_status := MilestoneStatus.COMPLETED\<rparr>" "ms' ! 1 = m2"
      by (auto simp: All_less_Suc numeral_2_eq_2)
    from list_of_two [OF l] e have "ms' = [m1\<lparr>ms_status := MilestoneStatus.COMPLETED\<rparr>, m2]"
      by simp
    with p show ?thesis by simp
  qed
  have b: "project (fst (handleMarkMilestoneComplete (Some alice) (Some (js ''p1'')) (js ''m1'')
                   (Inr \<lparr>resp_data = Some (m1\<lparr>amount := 120\<rparr>), resp_error = None\<rparr>)
                   loaded_page))
     = Some (proj\<lparr>milestones := Some [m1\<lparr>amount := 120\<rparr>, m2]\<rparr>)"
  proof -
    from inst [where result = "Inr \<lparr>resp_data = Some (m1\<lparr>amount := 120\<rparr>), resp_error = None\<rparr>"] ids
    obtain ms' where
      p: "project (fst (handleMarkMilestoneComplete (Some alice) (Some (js ''p1'')) (js ''m1'')
                   (Inr \<lparr>resp_data = Some (m1\<lparr>amount := 120\<rparr>), resp_error = None\<rparr>)
                   loaded_page))
            = Some (proj\<lparr>milestones := Some ms'\<rparr>)"
      and l: "length ms' = 2"
      and e: "ms' ! 0 = m1\<lparr>amount := 120\<rparr>" "ms' ! 1 = m2"
      by (auto simp: All_less_Suc numeral_2_eq_2)
    from list_of_two [OF l] e have "ms' = [m1\<lparr>amount := 120\<rparr>, m2]"
      by simp
    with p show ?thesis by simp
  qed
  have c: "handleMarkMilestoneComplete (Some alice) (Some (js ''p1'')) (js ''m1'')
        (Inl server_down) loaded_page
     = (loaded_page,
        [Call_updateMilestoneStatus (js ''m1'') (js ''p1'') MilestoneStatus.COMPLETED,
         Notify (js ''Failed to update milestone: '' @ js ''503 Service Unavailable'')
           ERROR None])"
    using inst [where result = "Inl server_down"] msg by simp
  show ?thesis by (rule conjI [OF a conjI [OF b c]])
qed

section \<open>Properties of the page states\<close>

lemma exactly_one_view:
  "(shows_loading v \<and> \<not> shows_fatal_error v \<and> \<not> shows_project v)
   \<or> (shows_fatal_error v \<and> \<not> shows_loading v \<and> \<not> shows_project v)
   \<or> (shows_project v \<and> \<not> shows_loading v \<and> \<not> shows_fatal_error v)"
  by (cases v) simp_all

lemma render_page_kinds:
  "shows_loading (render_page st) = isLoading st"
  "shows_fatal_error (render_page st)
     = (\<not> isLoading st \<and> (truthy (error st) \<or> project st = None))"
  "shows_project (render_page st)
     = (\<not> isLoading st \<and> \<not> truthy (error st) \<and> project st \<noteq> None)"
  by (auto simp: render_page_def split: option.splits)

lemma fetchMessages_failure: "thrown result \<noteq> None \<Longrightarrow>
   fst (fetchMessages user projectId result st) = st"
  by (auto simp: fetchMessages_def split: option.splits)

lemma render_page_fetchMessages:
  "render_page (fst (fetchMessages user projectId result st)) = render_page st"
  by (simp add: fetchMessages_def render_page_def split: option.splits)

lemma fetchProjectDetails_failure:
  assumes "truthy projectId" and "thrown result \<noteq> None \<or> returned result = None"
  shows "shows_fatal_error (render_page (fst (fetchProjectDetails projectId result st)))"
  using assms
  by (cases projectId)
     (auto simp: fetchProjectDetails_def render_page_def Let_def js_nonempty or_default_nonempty
           split: option.splits)

lemma fetchProjectDetails_success:
  assumes "truthy projectId" and "thrown result = None" and "returned result = Some d"
  shows "render_page (fst (fetchProjectDetails projectId result st)) = Project_view d"
  using assms
  by (cases projectId) (auto simp: fetchProjectDetails_def render_page_def Let_def)

text \<open>
  C9. The page shows exactly one of its three states: the spinner while \<open>isLoading\<close>,
  the fatal error when loading is over and an error is set or the project is missing,
  the project otherwise. A failed project fetch ends in the fatal error, a successful one
  in the project view. A failed fetch of the chat history leaves the state, and so the
  view, as it was.
\<close>

theorem page_states_exclusive:
  "((shows_loading (render_page st) \<and> \<not> shows_fatal_error (render_page st)
       \<and> \<not> shows_project (render_page st))
    \<or> (shows_fatal_error (render_page st) \<and> \<not> shows_loading (render_page st)
       \<and> \<not> shows_project (render_page st))
    \<or> (shows_project (render_page st) \<and> \<not> shows_loading (render_page st)
       \<and> \<not> shows_fatal_error (render_page st)))
   \<and> shows_loading (render_page st) = isLoading st
   \<and> shows_fatal_error (render_page st)
       = (\<not> isLoading st \<and> (truthy (error st) \<or> project st = None))
   \<and> shows_project (render_page st)
       = (\<not> isLoading st \<and> \<not> truthy (error st) \<and> project st \<noteq> None)
   \<and> (truthy projectId \<and> (thrown proj_result \<noteq> None \<or> returned proj_result = None)
        \<longrightarrow> shows_fatal_error
              (render_page (fst (fetchProjectDetails projectId proj_result st))))
   \<and> (truthy projectId \<and> thrown proj_result = None \<and> returned proj_result = Some d
        \<longrightarrow> render_page (fst (fetchProjectDetails projectId proj_result st)) = Project_view d)
   \<and> (thrown msgs_result \<noteq> None
        \<longrightarrow> fst (fetchMessages user projectId msgs_result st) = st)
   \<and> render_page (fst (fetchMessages user projectId msgs_result st)) = render_page st"
proof (intro conjI)
  show "(shows_loading (render_page st) \<and> \<not> shows_fatal_error (render_page st)
           \<and> \<not> shows_project (render_page st))
        \<or> (shows_fatal_error (render_page st) \<and> \<not> shows_loading (render_page st)
           \<and> \<not> shows_project (render_page st))
        \<or> (shows_project (render_page st) \<and> \<not> shows_loading (render_page st)
           \<and> \<not> shows_fatal_error (render_page st))"
    by (rule exactly_one_view)
  show "shows_loading (render_page st) = isLoading st"
    by (rule render_page_kinds)
  show "shows_fatal_error (render_page st)
          = (\<not> isLoading st \<and> (truthy (error st) \<or> project st = None))"
    by (rule render_page_kinds)
  show "shows_project (render_page st)
          = (\<not> isLoading st \<and> \<not> truthy (error st) \<and> project st \<noteq> None)"
    by (rule render_page_kinds)
  show "truthy projectId \<and> (thrown proj_result \<noteq> None \<or> returned proj_result = None)
        \<longrightarrow> shows_fatal_error
              (render_page (fst (fetchProjectDetails projectId proj_result st)))"
    using fetchProjectDetails_failure [of projectId proj_result st] by blast
  show "truthy projectId \<and> thrown proj_result = None \<and> returned proj_result = Some d
        \<longrightarrow> render_page (fst (fetchProjectDetails projectId proj_result st)) = Project_view d"
    using fetchProjectDetails_success [of projectId proj_result d st] by blast
  show "thrown msgs_result \<noteq> None
        \<longrightarrow> fst (fetchMessages user projectId msgs_result st) = st"
    using fetchMessages_failure [of msgs_result user projectId st] by blast
  show "render_page (fst (fetchMessages user projectId msgs_result st)) = render_page st"
    by (rule render_page_fetchMessages)
qed

theorem page_states_exclusive_witness:
  "shows_project (render_page loaded_page)
   \<and> \<not> shows_loading (render_page loaded_page)
   \<and> \<not> shows_fatal_error (render_page loaded_page)
   \<and> thrown (Inl server_down :: js_error + Message list api_response) = Some server_down
   \<and> fst (fetchMessages (Some alice) (Some (js ''p1'')) (Inl server_down) loaded_page)
       = loaded_page
   \<and> render_page (fst (fetchMessages (Some alice) (Some (js ''p1'')) (Inl server_down)
                          loaded_page)) = Project_view proj
   \<and> shows_fatal_error
        (render_page (fst (fetchProjectDetails (Some (js ''p1'')) (Inl server_down)
                             loaded_page)))
   \<and> render_page (fst (fetchProjectDetails (Some (js ''p1''))
                          (Inr \<lparr>resp_data = Some proj, resp_error = None\<rparr>)
                          (loaded_page\<lparr>isLoading := True\<rparr>))) = Project_view proj"
proof -
  have st: "isLoading loaded_page = False" "error loaded_page = None"
    "project loaded_page = Some proj"
    by (simp_all add: loaded_page_def)
  have view: "render_page loaded_page = Project_view proj"
    by (simp add: render_page_def st)
  have pid: "truthy (Some (js ''p1''))" by (simp add: js_def)
  have err: "thrown (Inl server_down :: js_error + Message list api_response)
               = Some server_down"
    by simp
  from page_states_exclusive [of loaded_page "Some (js ''p1'')" "Inl server_down" proj
         "Inl server_down" "Some alice"]
       page_states_exclusive [of "loaded_page\<lparr>isLoading := True\<rparr>" "Some (js ''p1'')"
         "Inr \<lparr>resp_data = Some proj, resp_error = None\<rparr>" proj "Inl server_down" "Some alice"]
       pid err view
  show ?thesis by (simp add: st)
qed

section \<open>Properties of the subscription lifecycle\<close>

lemma one_channel_cleanup: "one_channel c \<Longrightarrow> one_channel (subscription_cleanup c)"
  by (auto simp: one_channel_def subscription_cleanup_def split: option.splits)

lemma one_channel_effect: "one_channel c \<Longrightarrow> one_channel (subscription_effect d c)"
  by (auto simp: one_channel_def subscription_effect_def Let_def split: option.splits)

lemma one_channel_frame:
  "one_channel (c\<lparr>last_run := x, unmounted := y\<rparr>) = one_channel c"
  by (simp add: one_channel_def)

lemma one_channel_step: "one_channel c \<Longrightarrow> one_channel (lifecycle_step c e)"
  by (cases e)
     (auto simp: one_channel_cleanup one_channel_effect one_channel_frame
           split: option.splits)

lemma one_channel_foldl: "one_channel c \<Longrightarrow> one_channel (foldl lifecycle_step c evs)"
  by (induction evs arbitrary: c) (simp_all add: one_channel_step)

text \<open>Over any sequence of renders, \<open>subscribe\<close> is called at most once.\<close>

lemma at_most_one_subscription:
  "length (filter is_subscribe (channel_calls (lifecycle evs))) \<le> 1"
proof -
  have "one_channel mounted" by (simp add: one_channel_def mounted_def)
  then have "one_channel (lifecycle evs)"
    unfolding lifecycle_def by (rule one_channel_foldl)
  then show ?thesis by (auto simp: one_channel_def split: if_splits)
qed

text \<open>
  C4. Two runs of the subscription effect. In the first the project loads, chat becomes
  permitted, the channel is subscribed and the component unmounts: \<open>removeChannel\<close> is
  never called, because the cleanup function of the run that subscribed captured the
  \<open>chatChannel\<close> of its render, which was null. In the second the permission is lost and
  regained before the unmount: the channel is not released when the permission is lost,
  and it is then released twice.
\<close>

theorem subscription_release_runs:
  "channel_calls (lifecycle [Render not_yet_loaded, Render chat_allowed, Render chat_allowed,
                             Unmount])
     = [Channel_subscribe first_channel]
   \<and> channel_calls (lifecycle [Render not_yet_loaded, Render chat_allowed, Render chat_allowed,
                               Render not_yet_loaded, Render chat_allowed, Unmount])
     = [Channel_subscribe first_channel, Channel_remove first_channel,
        Channel_remove first_channel]"
  by (simp add: lifecycle_def mounted_def subscription_effect_def subscription_cleanup_def
        not_yet_loaded_def chat_allowed_def first_channel_def Let_def js_nonempty js_def)

end
